theory Spec2Isabelle
  imports Main
begin

section \<open>The texture compiler process (bin/texture.js)\<close>

text \<open>
  The script drives one build of a texture: it asks the native compiler for the metadata
  of an image, writes the metadata as a JSON file next to the pixel payload and reports
  outputs and errors through the build state of the DataCompiler package. It runs either
  stand-alone (one build from the command line, the exit status tells the outcome) or
  persistent (builds arrive as 'build' events).

  Everything the script observes or changes is explicit here: the console, the files it
  writes and the calls on the build state are events of a trace; \<open>process.exit\<close> and a
  thrown value are results of a call, so that nothing runs after them.
\<close>

subsection \<open>Paths\<close>

text \<open>The part of \<open>s\<close> after the last \<open>c\<close>, and the part up to and including it; with
  them the directory and the file name of a path, and the stem and the extension of a
  file name.\<close>

definition after_last :: "char \<Rightarrow> string \<Rightarrow> string" where
  "after_last c s = rev (takeWhile (\<lambda>x. x \<noteq> c) (rev s))"

definition upto_last :: "char \<Rightarrow> string \<Rightarrow> string" where
  "upto_last c s = rev (dropWhile (\<lambda>x. x \<noteq> c) (rev s))"

definition dir_part :: "string \<Rightarrow> string" where
  "dir_part p = upto_last CHR ''/'' p"

definition file_part :: "string \<Rightarrow> string" where
  "file_part p = after_last CHR ''/'' p"

definition stem :: "string \<Rightarrow> string" where
  "stem f = (if CHR ''.'' \<in> set f then butlast (upto_last CHR ''.'' f) else f)"

definition extension :: "string \<Rightarrow> string" where
  "extension f = (if CHR ''.'' \<in> set f then after_last CHR ''.'' f else [])"

text \<open>
  Modelled from the spec: \<open>DataCompiler.changeExtension\<close> belongs to the datacompiler
  package, whose code is not part of this repository's sources. The spec (4.1) has it
  replace the file extension of the path by the given literal extension, working on the
  file name only and leaving the directory components alone.
\<close>

definition changeExtension :: "string \<Rightarrow> string \<Rightarrow> string" where
  "changeExtension p ext = dir_part p @ stem (file_part p) @ ''.'' @ ext"

text \<open>
  Modelled from the spec: \<open>Path.basename\<close> and \<open>Path.join\<close> are Node's POSIX path
  functions, not part of this repository's sources. \<open>basename\<close> drops trailing
  separators and returns what follows the last remaining one; \<open>join\<close> puts a separator
  between its non-empty arguments and normalises the result (empty and \<open>.\<close> segments
  vanish, \<open>..\<close> removes the segment before it, a trailing separator is kept).
\<close>

definition basename :: "string \<Rightarrow> string" where
  "basename p = after_last CHR ''/'' (rev (dropWhile (\<lambda>x. x = CHR ''/'') (rev p)))"

text \<open>Modelled from the spec: the pieces of Node's \<open>normalize\<close> and \<open>join\<close>, which
  the spec only names as joining to the working directory: splitting at the separators,
  joining with separators, resolving \<open>.\<close> and \<open>..\<close> from the right
  (\<open>normalizeArray\<close>), and the two functions themselves.\<close>

fun split_sep :: "string \<Rightarrow> string list" where
  "split_sep [] = [[]]"
| "split_sep (c # cs) =
     (if c = CHR ''/'' then [] # split_sep cs
      else (case split_sep cs of [] \<Rightarrow> [[c]] | s # ss \<Rightarrow> (c # s) # ss))"

fun join_sep :: "string list \<Rightarrow> string" where
  "join_sep [] = []"
| "join_sep [s] = s"
| "join_sep (s # t # ss) = s @ ''/'' @ join_sep (t # ss)"

text \<open>The segments that survive, and the number of \<open>..\<close> still to apply to the left.\<close>

fun normalizeParts :: "string list \<Rightarrow> string list \<times> nat" where
  "normalizeParts [] = ([], 0)"
| "normalizeParts (p # ps) =
     (let (rest, up) = normalizeParts ps in
      if p = ''.'' then (rest, up)
      else if p = ''..'' then (rest, Suc up)
      else if 0 < up then (rest, up - 1)
      else (p # rest, up))"

definition normalizeArray :: "string list \<Rightarrow> bool \<Rightarrow> string list" where
  "normalizeArray parts allowAboveRoot =
     (let (rest, up) = normalizeParts parts in
      if allowAboveRoot then replicate up ''..'' @ rest else rest)"

definition normalize_path :: "string \<Rightarrow> string" where
  "normalize_path path =
     (let isAbsolute = (path \<noteq> [] \<and> hd path = CHR ''/'');
          trailingSlash = (path \<noteq> [] \<and> last path = CHR ''/'');
          p1 = join_sep (normalizeArray (filter (\<lambda>s. s \<noteq> []) (split_sep path)) (\<not> isAbsolute));
          p2 = (if p1 = [] \<and> \<not> isAbsolute then ''.'' else p1);
          p3 = (if p2 \<noteq> [] \<and> trailingSlash then p2 @ ''/'' else p2)
      in (if isAbsolute then ''/'' else []) @ p3)"

definition path_join :: "string \<Rightarrow> string \<Rightarrow> string" where
  "path_join a b = normalize_path (join_sep (filter (\<lambda>s. s \<noteq> []) [a, b]))"

subsection \<open>Data of the script\<close>

text \<open>The exit codes of the application (lines 28 to 35).\<close>

datatype exit_code = SUCCESS | ERROR | FILE_NOT_FOUND

fun exit_status :: "exit_code \<Rightarrow> nat" where
  "exit_status SUCCESS = 0"
| "exit_status ERROR = 1"
| "exit_status FILE_NOT_FOUND = 2"

text \<open>The options as commander leaves them after parsing, with \<open>''''\<close> and \<open>False\<close>
  for an option that was not given (lines 47 to 50).\<close>

record program =
  prog_persistent :: bool
  prog_input :: string
  prog_output :: string
  prog_target :: string

definition no_options :: program where
  "no_options = \<lparr>prog_persistent = False, prog_input = [], prog_output = [], prog_target = []\<rparr>"

text \<open>The object returned by \<open>command_line\<close> and kept in \<open>application.args\<close>.\<close>

record app_args =
  args_persistent :: bool
  args_sourcePath :: string
  args_targetPath :: string
  args_platform :: string

text \<open>The argument of \<open>compiler_build\<close>.\<close>

record build_input =
  sourcePath :: string
  targetPath :: string
  platform :: string
  isIPC :: bool

text \<open>The payload of a 'build' event.\<close>

record build_data =
  data_sourcePath :: string
  data_targetPath :: string
  data_platform :: string

text \<open>The object handed to \<open>TextureCompiler.compile\<close> (lines 109 to 127).\<close>

record compile_options =
  opt_sourcePath :: string
  opt_targetPath :: string
  opt_type :: string
  opt_format :: string
  opt_target :: string
  opt_wrapModeS :: string
  opt_wrapModeT :: string
  opt_minifyFilter :: string
  opt_magnifyFilter :: string
  opt_borderMode :: string
  opt_premultipliedAlpha :: bool
  opt_forcePowerOfTwo :: bool
  opt_flipY :: bool
  opt_buildMipmaps :: bool
  opt_levelCount :: nat
  opt_targetWidth :: nat
  opt_targetHeight :: nat

text \<open>A value thrown in the process: one raised by an external capability, or the
  protocol violation of the build state.\<close>

datatype 'e thrown = External 'e | ProtocolViolation

text \<open>
  What the script takes from outside: the file system as \<open>DataCompiler.isFile\<close> sees it,
  \<open>process.cwd()\<close>, \<open>process.argv[1]\<close>, the native compiler
  (\<open>TextureCompiler.compile\<close>, which returns the metadata or throws),
  \<open>JSON.stringify(meta, null, '\t')\<close>, whether \<open>Filesystem.writeFileSync\<close> of a text to
  a path throws, and the conversion of a thrown value to a string.
\<close>

record ('m, 'e) env =
  isFile :: "string \<Rightarrow> bool"
  cwd :: string
  argv1 :: string
  compile :: "compile_options \<Rightarrow> 'e + 'm"
  stringify :: "'m \<Rightarrow> 'e + string"
  writeFileSync :: "string \<Rightarrow> string \<Rightarrow> 'e option"
  toString :: "'e \<Rightarrow> string"

subsection \<open>The process state\<close>

record 'e build_state =
  outputs :: "string list"
  errors :: "'e thrown list"
  is_open :: bool

datatype 'e event =
    ConsoleLog string
  | ConsoleError string
  | WriteFile string string
  | StartBuild nat
  | AddOutput nat string
  | AddError nat "'e thrown"
  | FinishBuild nat

text \<open>\<open>application.args\<close> is \<open>{}\<close> until \<open>Main\<close> assigns it; the build states are
  objects, referred to by their position in \<open>builds\<close>.\<close>

record 'e world =
  args :: "app_args option"
  builds :: "'e build_state list"
  trace :: "'e event list"

definition initial :: "'e world" where
  "initial = \<lparr>args = None, builds = [], trace = []\<rparr>"

datatype 'e completion = Returned | Exited nat | Threw "'e thrown"

definition emit :: "'e event list \<Rightarrow> 'e world \<Rightarrow> 'e world" where
  "emit es w = w\<lparr>trace := trace w @ es\<rparr>"

text \<open>The events that happened between two states of the process.\<close>

definition events_since :: "'e world \<Rightarrow> 'e world \<Rightarrow> 'e event list" where
  "events_since w w' = drop (length (trace w)) (trace w')"

text \<open>The value of \<open>application.args.persistent\<close> as a condition.\<close>

definition persistent_mode :: "'e world \<Rightarrow> bool" where
  "persistent_mode w = (case args w of None \<Rightarrow> False | Some a \<Rightarrow> args_persistent a)"

definition thrown_toString :: "('m, 'e) env \<Rightarrow> 'e thrown \<Rightarrow> string" where
  "thrown_toString env t =
     (case t of External e \<Rightarrow> toString env e | ProtocolViolation \<Rightarrow> ''ProtocolViolation'')"

subsection \<open>The build state tracker\<close>

text \<open>
  Modelled from the spec: \<open>DataCompiler.startBuild\<close>, \<open>state.addOutput\<close>,
  \<open>state.addError\<close> and \<open>DataCompiler.finishBuild\<close> belong to the datacompiler package,
  whose code is not part of this repository's sources. The spec (4.2) has \<open>StartBuild\<close>
  open a state with no outputs and no errors, \<open>AddOutput\<close> and \<open>AddError\<close> append to an
  open state and fail with a protocol violation on a closed one, and \<open>FinishBuild\<close>
  close the state.
\<close>

definition startBuild :: "build_input \<Rightarrow> 'e world \<Rightarrow> nat \<times> 'e world" where
  "startBuild inp w =
     (let k = length (builds w) in
      (k, emit [StartBuild k]
            (w\<lparr>builds := builds w @ [\<lparr>outputs = [], errors = [], is_open = True\<rparr>]\<rparr>)))"

text \<open>Modelled from the spec: \<open>state.addOutput(path)\<close>, valid on an open state only;
  it appends the path, duplicates allowed.\<close>

definition addOutput :: "nat \<Rightarrow> string \<Rightarrow> 'e world \<Rightarrow> 'e thrown + 'e world" where
  "addOutput k path w =
     (if k < length (builds w) \<and> is_open (builds w ! k)
      then Inr (emit [AddOutput k path]
             (w\<lparr>builds := (builds w)[k := (builds w ! k)\<lparr>outputs := outputs (builds w ! k) @ [path]\<rparr>]\<rparr>))
      else Inl ProtocolViolation)"

text \<open>Modelled from the spec: \<open>state.addError(error)\<close>, valid on an open state only;
  it appends the error and does not end the build.\<close>

definition addError :: "nat \<Rightarrow> 'e thrown \<Rightarrow> 'e world \<Rightarrow> 'e thrown + 'e world" where
  "addError k err w =
     (if k < length (builds w) \<and> is_open (builds w ! k)
      then Inr (emit [AddError k err]
             (w\<lparr>builds := (builds w)[k := (builds w ! k)\<lparr>errors := errors (builds w ! k) @ [err]\<rparr>]\<rparr>))
      else Inl ProtocolViolation)"

text \<open>Modelled from the spec: \<open>DataCompiler.finishBuild(state)\<close> closes the state.\<close>

definition finishBuild :: "nat \<Rightarrow> 'e world \<Rightarrow> 'e world" where
  "finishBuild k w =
     emit [FinishBuild k] (w\<lparr>builds := (builds w)[k := (builds w ! k)\<lparr>is_open := False\<rparr>]\<rparr>)"

subsection \<open>The functions of the script\<close>

text \<open>\<open>command_line\<close> (lines 41 to 84): the arguments of the build, or the exit status
  with which the process ends.\<close>

definition command_line ::
  "('m, 'e) env \<Rightarrow> program \<Rightarrow> 'e world \<Rightarrow> (nat + app_args) \<times> 'e world" where
  "command_line env prog w =
     (if prog_persistent prog then
        (Inr \<lparr>args_persistent = True, args_sourcePath = argv1 env,
              args_targetPath = argv1 env, args_platform = []\<rparr>, w)
      else if \<not> isFile env (prog_input prog) then
        (Inl (exit_status FILE_NOT_FOUND),
         emit [ConsoleLog ''Error: No input file specified or input file not found.'',
               ConsoleLog []] w)
      else
        (let out = (if prog_output prog = [] then
                      (let file = basename (prog_input prog);
                           path = cwd env;
                           file' = changeExtension file ''pixels''
                       in path_join path file')
                    else prog_output prog)
         in (Inr \<lparr>args_persistent = False, args_sourcePath = prog_input prog,
                   args_targetPath = out, args_platform = prog_target prog\<rparr>, w)))"

text \<open>\<open>write_texture_metadata\<close> (lines 89 to 93): the thrown value, if any.\<close>

definition write_texture_metadata ::
  "('m, 'e) env \<Rightarrow> string \<Rightarrow> 'm \<Rightarrow> 'e world \<Rightarrow> 'e thrown option \<times> 'e world" where
  "write_texture_metadata env path meta w =
     (case stringify env meta of
        Inl e \<Rightarrow> (Some (External e), w)
      | Inr s \<Rightarrow>
          (let json = s @ [CHR 0x0A] in
           case writeFileSync env path json of
             Some e \<Rightarrow> (Some (External e), w)
           | None \<Rightarrow> (None, emit [WriteFile path json] w)))"

definition texture_options :: "build_input \<Rightarrow> compile_options" where
  "texture_options inp =
     \<lparr>opt_sourcePath = sourcePath inp, opt_targetPath = targetPath inp,
      opt_type = ''COLOR'', opt_format = ''RGB'', opt_target = ''TEXTURE_2D'',
      opt_wrapModeS = ''CLAMP_TO_EDGE'', opt_wrapModeT = ''CLAMP_TO_EDGE'',
      opt_minifyFilter = ''LINEAR'', opt_magnifyFilter = ''LINEAR'',
      opt_borderMode = ''CLAMP'', opt_premultipliedAlpha = False,
      opt_forcePowerOfTwo = False, opt_flipY = True, opt_buildMipmaps = False,
      opt_levelCount = 0, opt_targetWidth = 0, opt_targetHeight = 0\<rparr>"

text \<open>The body of the \<open>try\<close> block of \<open>compiler_build\<close> (lines 109 to 131): the value it
  throws, if any.\<close>

definition build_steps ::
  "('m, 'e) env \<Rightarrow> build_input \<Rightarrow> nat \<Rightarrow> string \<Rightarrow> string \<Rightarrow> 'e world
     \<Rightarrow> 'e thrown option \<times> 'e world" where
  "build_steps env inp state mpath ppath w =
     (case compile env (texture_options inp) of
        Inl e \<Rightarrow> (Some (External e), w)
      | Inr md \<Rightarrow>
          (case write_texture_metadata env mpath md w of
             (Some t, w1) \<Rightarrow> (Some t, w1)
           | (None, w1) \<Rightarrow>
               (case addOutput state mpath w1 of
                  Inl t \<Rightarrow> (Some t, w1)
                | Inr w2 \<Rightarrow>
                    (case addOutput state ppath w2 of
                       Inl t \<Rightarrow> (Some t, w2)
                     | Inr w3 \<Rightarrow> (None, w3)))))"

text \<open>\<open>compiler_build\<close> (lines 101 to 149). The resource information parsed from the
  source path at line 104 is never used and is left out.\<close>

definition compiler_build ::
  "('m, 'e) env \<Rightarrow> build_input \<Rightarrow> 'e world \<Rightarrow> 'e completion \<times> 'e world" where
  "compiler_build env inp w =
     (let (state, w0) = startBuild inp w;
          mpath = changeExtension (targetPath inp) ''texture'';
          ppath = targetPath inp
      in case build_steps env inp state mpath ppath w0 of
           (None, w1) \<Rightarrow> (Returned, finishBuild state w1)
         | (Some error, w1) \<Rightarrow>
             (case addError state error w1 of
                Inl t \<Rightarrow> (Threw t, w1)
              | Inr w2 \<Rightarrow>
                  if \<not> persistent_mode w2 then
                    (Exited (exit_status ERROR),
                     emit [ConsoleError ''An error has occurred:'',
                           ConsoleError (''  '' @ thrown_toString env error),
                           ConsoleError []] w2)
                  else (Returned, finishBuild state w2)))"

text \<open>The handler of the 'build' event (lines 167 to 175), and the object it hands to
  \<open>compiler_build\<close>.\<close>

definition ipc_input :: "build_data \<Rightarrow> build_input" where
  "ipc_input d = \<lparr>sourcePath = data_sourcePath d, targetPath = data_targetPath d,
        platform = data_platform d, isIPC = True\<rparr>"

definition on_build ::
  "('m, 'e) env \<Rightarrow> build_data \<Rightarrow> 'e world \<Rightarrow> 'e completion \<times> 'e world" where
  "on_build env d w = compiler_build env (ipc_input d) w"

text \<open>\<open>Main\<close> (lines 202 to 215).\<close>

definition main ::
  "('m, 'e) env \<Rightarrow> program \<Rightarrow> 'e world \<Rightarrow> 'e completion \<times> 'e world" where
  "main env prog w =
     (case command_line env prog w of
        (Inl status, w1) \<Rightarrow> (Exited status, w1)
      | (Inr a, w1) \<Rightarrow>
          (let w2 = w1\<lparr>args := Some a\<rparr>;
               ipcMode = args_persistent a
           in if ipcMode = False then
                compiler_build env
                  \<lparr>sourcePath = args_sourcePath a, targetPath = args_targetPath a,
                   platform = args_platform a, isIPC = False\<rparr> w2
              else (Returned, w2)))"

text \<open>
  In persistent mode the process stays alive after \<open>Main\<close> and the 'build' events are
  handed to the handler one after the other; a handler that ends the process or throws
  ends the delivery.
\<close>

fun handle_events ::
  "('m, 'e) env \<Rightarrow> build_data list \<Rightarrow> 'e world \<Rightarrow> 'e completion \<times> 'e world" where
  "handle_events env [] w = (Returned, w)"
| "handle_events env (d # ds) w =
     (case on_build env d w of
        (Returned, w1) \<Rightarrow> handle_events env ds w1
      | (Exited n, w1) \<Rightarrow> (Exited n, w1)
      | (Threw t, w1) \<Rightarrow> (Threw t, w1))"

text \<open>The listeners the script registers on \<open>process\<close> (lines 179 to 199), under the
  event names it gives them.\<close>

datatype listener = UnhandledException | Sigterm | Sigint

definition process_listeners :: "(string \<times> listener) list" where
  "process_listeners =
     [(''unhandledException'', UnhandledException),
      (''SIGTERM'', Sigterm),
      (''SIGINT'', Sigint)]"

fun run_listener ::
  "('m, 'e) env \<Rightarrow> listener \<Rightarrow> 'e thrown \<Rightarrow> 'e world \<Rightarrow> 'e completion \<times> 'e world" where
  "run_listener env UnhandledException error w =
     (Exited (exit_status ERROR),
      emit [ConsoleError ''An unhandled exception has occurred:'',
            ConsoleError (''  Error: '' @ thrown_toString env error),
            ConsoleError []] w)"
| "run_listener env Sigterm error w = (Exited (exit_status SUCCESS), w)"
| "run_listener env Sigint error w = (Exited (exit_status SUCCESS), w)"

text \<open>An event of \<open>process\<close> runs the listener registered under its name; \<open>None\<close> when
  the script has registered none, and the event is then left to the runtime.\<close>

definition process_emit ::
  "('m, 'e) env \<Rightarrow> string \<Rightarrow> 'e thrown \<Rightarrow> 'e world \<Rightarrow> ('e completion \<times> 'e world) option" where
  "process_emit env name error w =
     map_option (\<lambda>l. run_listener env l error w) (map_of process_listeners name)"

text \<open>Node announces an exception that nothing caught as the event
  \<open>uncaughtException\<close> of \<open>process\<close>.\<close>

definition uncaught_exception ::
  "('m, 'e) env \<Rightarrow> 'e thrown \<Rightarrow> 'e world \<Rightarrow> ('e completion \<times> 'e world) option" where
  "uncaught_exception env error w = process_emit env ''uncaughtException'' error w"

subsection \<open>Notions used in the statements\<close>

definition metadata_path :: "build_input \<Rightarrow> string" where
  "metadata_path inp = changeExtension (targetPath inp) ''texture''"

text \<open>What the external steps of a build throw inside the \<open>try\<close> block: the failure of the
  compiler, of the encoding of the metadata or of the write, in the order of the calls.\<close>

definition build_failure :: "('m, 'e) env \<Rightarrow> build_input \<Rightarrow> 'e thrown option" where
  "build_failure env inp =
     (case compile env (texture_options inp) of
        Inl e \<Rightarrow> Some (External e)
      | Inr md \<Rightarrow>
          (case stringify env md of
             Inl e \<Rightarrow> Some (External e)
           | Inr s \<Rightarrow>
               (case writeFileSync env (metadata_path inp) (s @ [CHR 0x0A]) of
                  Some e \<Rightarrow> Some (External e)
                | None \<Rightarrow> None)))"

text \<open>The text of the metadata file of a build whose compile step and encoding succeed.\<close>

definition sidecar_text :: "('m, 'e) env \<Rightarrow> build_input \<Rightarrow> string" where
  "sidecar_text env inp =
     (case compile env (texture_options inp) of
        Inl e \<Rightarrow> []
      | Inr md \<Rightarrow> (case stringify env md of Inl e \<Rightarrow> [] | Inr s \<Rightarrow> s @ [CHR 0x0A]))"

definition success_world :: "('m, 'e) env \<Rightarrow> build_input \<Rightarrow> 'e world \<Rightarrow> 'e world" where
  "success_world env inp w =
     w\<lparr>builds := builds w @
          [\<lparr>outputs = [metadata_path inp, targetPath inp], errors = [], is_open = False\<rparr>],
       trace := trace w @
          [StartBuild (length (builds w)),
           WriteFile (metadata_path inp) (sidecar_text env inp),
           AddOutput (length (builds w)) (metadata_path inp),
           AddOutput (length (builds w)) (targetPath inp),
           FinishBuild (length (builds w))]\<rparr>"

text \<open>A path segment that normalisation leaves alone, and the absolute path made of
  given segments.\<close>

definition plain_segment :: "string \<Rightarrow> bool" where
  "plain_segment s = (s \<noteq> [] \<and> CHR ''/'' \<notin> set s \<and> s \<noteq> ''.'' \<and> s \<noteq> ''..'')"

definition absolute_path :: "string list \<Rightarrow> string" where
  "absolute_path segs = concat (map (\<lambda>s. CHR ''/'' # s) segs)"

subsection \<open>An example environment\<close>

text \<open>Two images exist, of which one cannot be decoded; nothing can be written below
  \<open>/readonly\<close>; the metadata is its own JSON text.\<close>

definition example_env :: "(string, string) env" where
  "example_env =
     \<lparr>isFile = (\<lambda>p. p = ''photo.png'' \<or> p = ''broken.png''),
      cwd = ''/work'',
      argv1 = ''/opt/texture/bin/texture.js'',
      compile = (\<lambda>opt. if opt_sourcePath opt = ''photo.png'' then Inr ''{}''
                        else Inl ''cannot decode''),
      stringify = (\<lambda>m. Inr m),
      writeFileSync = (\<lambda>p d. if dir_part p = ''/readonly/'' then Some ''EACCES'' else None),
      toString = (\<lambda>e. ''Error: '' @ e)\<rparr>"

definition photo_input :: build_input where
  "photo_input =
     \<lparr>sourcePath = ''photo.png'', targetPath = ''/work/photo.pixels'',
      platform = [], isIPC = False\<rparr>"

definition broken_input :: build_input where
  "broken_input =
     \<lparr>sourcePath = ''broken.png'', targetPath = ''/work/broken.pixels'',
      platform = [], isIPC = False\<rparr>"

definition readonly_input :: build_input where
  "readonly_input =
     \<lparr>sourcePath = ''photo.png'', targetPath = ''/readonly/photo.pixels'',
      platform = [], isIPC = False\<rparr>"

definition broken_data :: build_data where
  "broken_data =
     \<lparr>data_sourcePath = ''broken.png'', data_targetPath = ''/out/broken'',
      data_platform = []\<rparr>"

definition photo_data :: build_data where
  "photo_data =
     \<lparr>data_sourcePath = ''photo.png'', data_targetPath = ''/out/photo'',
      data_platform = []\<rparr>"

text \<open>A process in persistent mode, before any build.\<close>

definition persistent_world :: "string world" where
  "persistent_world =
     \<lparr>args = Some \<lparr>args_persistent = True, args_sourcePath = ''/opt/texture/bin/texture.js'',
                     args_targetPath = ''/opt/texture/bin/texture.js'', args_platform = []\<rparr>,
      builds = [], trace = []\<rparr>"

text \<open>A stand-alone process that builds the image that cannot be decoded, after
  \<open>Main\<close> has stored its arguments.\<close>

definition broken_options :: program where
  "broken_options = no_options\<lparr>prog_input := ''broken.png''\<rparr>"

definition standalone_world :: "string world" where
  "standalone_world =
     \<lparr>args = Some \<lparr>args_persistent = False, args_sourcePath = ''broken.png'',
                     args_targetPath = ''/work/broken.pixels'', args_platform = []\<rparr>,
      builds = [], trace = []\<rparr>"

text \<open>The options of two more stand-alone runs: a source that does not exist, and the image
  that compiles, without an output path.\<close>

definition missing_options :: program where
  "missing_options = no_options\<lparr>prog_input := ''missing.png''\<rparr>"

definition photo_options :: program where
  "photo_options = no_options\<lparr>prog_input := ''photo.png''\<rparr>"

text \<open>A persistent process, and its state after a first build has succeeded.\<close>

definition persistent_options :: program where
  "persistent_options = no_options\<lparr>prog_persistent := True\<rparr>"

definition after_photo :: "string world" where
  "after_photo = persistent_world
     \<lparr>builds := [\<lparr>outputs = [''/out/photo.texture'', ''/out/photo''], errors = [],
                   is_open = False\<rparr>],
      trace := [StartBuild 0, WriteFile ''/out/photo.texture'' (''{}'' @ [CHR 0x0A]),
                AddOutput 0 ''/out/photo.texture'', AddOutput 0 ''/out/photo'',
                FinishBuild 0]\<rparr>"

section \<open>Properties\<close>

subsection \<open>Extension replacement\<close>

lemma upto_last_cases: "upto_last c s = [] \<or> (\<exists>u. upto_last c s = u @ [c])"
proof (cases "dropWhile (\<lambda>x. x \<noteq> c) (rev s)")
  case Nil
  then show ?thesis by (simp add: upto_last_def)
next
  case (Cons a as)
  then have "a = c" using hd_dropWhile[of "\<lambda>x. x \<noteq> c" "rev s"] by auto
  with Cons show ?thesis by (simp add: upto_last_def)
qed

lemma after_last_no_sep: "c \<notin> set (after_last c s)"
  unfolding after_last_def using set_takeWhileD by fastforce

lemma after_last_plain: "c \<notin> set t \<Longrightarrow> after_last c t = t"
proof -
  assume "c \<notin> set t"
  then have "takeWhile (\<lambda>x. x \<noteq> c) (rev t) = rev t"
    by (intro takeWhile_eq_all_conv[THEN iffD2]) auto
  then show ?thesis unfolding after_last_def by (simp only: rev_rev_ident)
qed

lemma upto_last_plain: "c \<notin> set t \<Longrightarrow> upto_last c t = []"
  by (auto simp: upto_last_def dropWhile_eq_Nil_conv)

lemma after_last_snoc: "c \<notin> set t \<Longrightarrow> after_last c (u @ c # t) = t"
proof -
  assume "c \<notin> set t"
  then have "takeWhile (\<lambda>x. x \<noteq> c) (rev t @ c # rev u) = rev t"
    by (subst takeWhile_append2) auto
  then show ?thesis by (simp add: after_last_def)
qed

lemma upto_last_snoc: "c \<notin> set t \<Longrightarrow> upto_last c (u @ c # t) = u @ [c]"
proof -
  assume "c \<notin> set t"
  then have "dropWhile (\<lambda>x. x \<noteq> c) (rev t @ c # rev u) = c # rev u"
    by (subst dropWhile_append2) auto
  then show ?thesis by (simp add: upto_last_def)
qed

lemma after_last_upto: "c \<notin> set t \<Longrightarrow> after_last c (upto_last c s @ t) = t"
  using upto_last_cases[of c s] by (auto simp: after_last_plain after_last_snoc)

lemma upto_last_upto: "c \<notin> set t \<Longrightarrow> upto_last c (upto_last c s @ t) = upto_last c s"
  using upto_last_cases[of c s] by (auto simp: upto_last_plain upto_last_snoc)

lemma upto_after: "upto_last c s @ after_last c s = s"
  by (simp add: upto_last_def after_last_def flip: rev_append)

lemma set_stem: "set (stem f) \<subseteq> set f"
proof (cases "CHR ''.'' \<in> set f")
  case True
  have "set (butlast (upto_last CHR ''.'' f)) \<subseteq> set (upto_last CHR ''.'' f)"
    by (meson in_set_butlastD subsetI)
  also have "\<dots> \<subseteq> set f" using upto_after[of "CHR ''.''" f]
    by (metis Un_upper1 set_append)
  finally show ?thesis using True by (simp add: stem_def)
qed (simp add: stem_def)

lemma stem_no_sep: "CHR ''/'' \<notin> set (stem (file_part p))"
  using set_stem[of "file_part p"] after_last_no_sep[of "CHR ''/''" p]
  by (auto simp: file_part_def)

lemma changeExtension_dir:
  "CHR ''/'' \<notin> set ext \<Longrightarrow> dir_part (changeExtension p ext) = dir_part p"
  using stem_no_sep[of p]
  by (simp add: changeExtension_def dir_part_def upto_last_upto)

lemma changeExtension_file:
  "CHR ''/'' \<notin> set ext \<Longrightarrow>
   file_part (changeExtension p ext) = stem (file_part p) @ ''.'' @ ext"
  using stem_no_sep[of p]
  by (simp add: changeExtension_def dir_part_def file_part_def[of "_ @ _"] after_last_upto)

lemma stem_with_extension: "CHR ''.'' \<notin> set ext \<Longrightarrow> stem (s @ ''.'' @ ext) = s"
  by (simp add: stem_def upto_last_snoc)

lemma extension_with_extension: "CHR ''.'' \<notin> set ext \<Longrightarrow> extension (s @ ''.'' @ ext) = ext"
  by (simp add: extension_def after_last_snoc)

lemma changeExtension_idem:
  "CHR ''/'' \<notin> set ext \<Longrightarrow> CHR ''.'' \<notin> set ext \<Longrightarrow>
   changeExtension (changeExtension p ext) ext = changeExtension p ext"
  using stem_with_extension[of ext "stem (file_part p)"]
  by (simp add: changeExtension_def[of "changeExtension p ext"] changeExtension_dir
      changeExtension_file) (simp add: changeExtension_def)

subsection \<open>Joining a file name to a directory\<close>

lemma basename_no_sep: "CHR ''/'' \<notin> set (basename p)"
  by (simp add: basename_def after_last_no_sep)

lemma changeExtension_basename:
  "changeExtension (basename p) ext = stem (basename p) @ ''.'' @ ext"
  using basename_no_sep [of p]
  by (simp add: changeExtension_def dir_part_def file_part_def upto_last_plain after_last_plain)

lemma split_sep_nonempty: "split_sep s \<noteq> []"
  by (induction s) (auto split: list.splits)

lemma split_sep_plain: "CHR ''/'' \<notin> set s \<Longrightarrow> split_sep s = [s]"
  by (induction s) auto

lemma split_sep_segment:
  "CHR ''/'' \<notin> set s \<Longrightarrow> split_sep (s @ CHR ''/'' # r) = s # split_sep r"
  by (induction s) auto

lemma split_sep_absolute:
  "list_all plain_segment segs \<Longrightarrow> segs \<noteq> [] \<Longrightarrow>
   split_sep (absolute_path segs) = [] # segs"
proof (induction segs)
  case Nil
  then show ?case by simp
next
  case (Cons s segs)
  then have s: "CHR ''/'' \<notin> set s" by (simp add: plain_segment_def)
  show ?case
  proof (cases segs)
    case Nil
    then show ?thesis using s by (simp add: absolute_path_def split_sep_plain)
  next
    case (Cons t ts)
    then have "split_sep (absolute_path segs) = [] # segs"
      using Cons.IH Cons.prems by simp
    moreover have "absolute_path (s # segs) = CHR ''/'' # s @ absolute_path segs"
      by (simp add: absolute_path_def)
    moreover have "absolute_path segs = CHR ''/'' # t @ absolute_path ts"
      using Cons by (simp add: absolute_path_def)
    ultimately show ?thesis
      using s split_sep_segment [of s "t @ absolute_path ts"] 
      by (simp add: Cons)
  qed
qed

lemma normalizeParts_plain:
  "list_all plain_segment segs \<Longrightarrow> normalizeParts segs = (segs, 0)"
  by (induction segs) (auto simp: plain_segment_def)

lemma join_sep_absolute:
  "segs \<noteq> [] \<Longrightarrow> CHR ''/'' # join_sep segs = absolute_path segs"
  by (induction segs rule: join_sep.induct) (simp_all add: absolute_path_def)

lemma filter_plain: "list_all plain_segment segs \<Longrightarrow> filter (\<lambda>s. s \<noteq> []) segs = segs"
  by (induction segs) (auto simp: plain_segment_def)

lemma absolute_path_last:
  "list_all plain_segment segs \<Longrightarrow> segs \<noteq> [] \<Longrightarrow>
   absolute_path segs \<noteq> [] \<and> hd (absolute_path segs) = CHR ''/'' \<and>
   last (absolute_path segs) \<noteq> CHR ''/''"
proof (induction segs)
  case Nil
  then show ?case by simp
next
  case (Cons s segs)
  show ?case
  proof (cases segs)
    case Nil
    have "s \<noteq> []" "CHR ''/'' \<notin> set s" using Cons.prems by (simp_all add: plain_segment_def)
    then have "last s \<noteq> CHR ''/''" using last_in_set by metis 
    then show ?thesis using Nil \<open>s \<noteq> []\<close> by (simp add: absolute_path_def)
  next
    case (Cons t ts)
    then have "absolute_path segs \<noteq> [] \<and> last (absolute_path segs) \<noteq> CHR ''/''"
      using Cons.IH Cons.prems by simp
    moreover have "absolute_path (s # segs) = CHR ''/'' # s @ absolute_path segs"
      by (simp add: absolute_path_def)
    ultimately show ?thesis by simp
  qed
qed

lemma join_sep_nonempty_segment: "segs \<noteq> [] \<Longrightarrow> list_all plain_segment segs \<Longrightarrow> join_sep segs \<noteq> []"
  by (induction segs rule: join_sep.induct) (simp_all add: plain_segment_def)

lemma normalize_path_absolute:
  assumes "list_all plain_segment segs" and "segs \<noteq> []"
  shows "normalize_path (absolute_path segs) = absolute_path segs"
proof -
  note a = absolute_path_last [OF assms]
  have "join_sep (normalizeArray (filter (\<lambda>s. s \<noteq> []) (split_sep (absolute_path segs))) False)
      = join_sep segs"
    by (simp add: split_sep_absolute [OF assms] filter_plain [OF assms(1)] normalizeArray_def
        normalizeParts_plain [OF assms(1)])
  then show ?thesis
    using a join_sep_nonempty_segment [OF assms(2,1)] join_sep_absolute [OF assms(2)]
    by (simp add: normalize_path_def Let_def)
qed

lemma path_join_absolute:
  assumes "list_all plain_segment segs" and "segs \<noteq> []" and "plain_segment name"
  shows "path_join (absolute_path segs) name = absolute_path segs @ ''/'' @ name"
proof -
  have n: "absolute_path segs \<noteq> []" "name \<noteq> []"
    using absolute_path_last [OF assms(1,2)] assms(3) by (simp_all add: plain_segment_def)
  have "absolute_path segs @ ''/'' @ name = absolute_path (segs @ [name])"
    by (simp add: absolute_path_def)
  moreover have "normalize_path (absolute_path (segs @ [name])) = absolute_path (segs @ [name])"
    using assms by (intro normalize_path_absolute) simp_all
  ultimately show ?thesis
    using n by (simp add: path_join_def)
qed

lemma path_join_root:
  assumes "plain_segment name"
  shows "path_join ''/'' name = ''/'' @ name"
proof -
  have "name \<noteq> []" "CHR ''/'' \<notin> set name"
    using assms by (simp_all add: plain_segment_def)
  moreover from this have "last name \<noteq> CHR ''/''"
    using last_in_set by metis
  moreover have "split_sep (''/'' @ ''/'' @ name) = [[], [], name]"
    using calculation by (simp add: split_sep_plain)
  moreover have "normalizeParts [name] = ([name], 0)"
    using normalizeParts_plain [of "[name]"] assms by simp
  ultimately show ?thesis
    by (simp add: path_join_def normalize_path_def normalizeArray_def)
qed

lemma plain_default_name: "plain_segment (stem (basename p) @ ''.pixels'')"
  using set_stem [of "basename p"] basename_no_sep [of p]
  by (auto simp: plain_segment_def append_eq_Cons_conv)

subsection \<open>The result of a build\<close>

lemma startBuild_eq:
  "startBuild inp w =
     (length (builds w),
      w\<lparr>builds := builds w @ [\<lparr>outputs = [], errors = [], is_open = True\<rparr>],
        trace := trace w @ [StartBuild (length (builds w))]\<rparr>)"
  by (simp add: startBuild_def emit_def Let_def)

lemma build_steps_ok:
  assumes "build_failure env inp = None"
    and "k < length (builds w)" and "builds w ! k = \<lparr>outputs = [], errors = [], is_open = True\<rparr>"
  shows "build_steps env inp k (metadata_path inp) (targetPath inp) w =
     (None, w\<lparr>builds := (builds w)[k := \<lparr>outputs = [metadata_path inp, targetPath inp], errors = [], is_open = True\<rparr>],
               trace := trace w @ [WriteFile (metadata_path inp) (sidecar_text env inp),
                  AddOutput k (metadata_path inp), AddOutput k (targetPath inp)]\<rparr>)"
  using assms
  by (auto simp: build_failure_def build_steps_def write_texture_metadata_def sidecar_text_def
      addOutput_def emit_def Let_def split: sum.splits option.splits)

lemma build_steps_fail:
  assumes "build_failure env inp = Some t"
  shows "build_steps env inp k (metadata_path inp) (targetPath inp) w = (Some t, w)"
  using assms
  by (auto simp: build_failure_def build_steps_def write_texture_metadata_def
      Let_def split: sum.splits option.splits)

lemma compiler_build_success:
  assumes "build_failure env inp = None"
  shows "compiler_build env inp w = (Returned, success_world env inp w)"
  unfolding compiler_build_def startBuild_eq Let_def prod.case metadata_path_def[symmetric]
  by (subst build_steps_ok[OF assms]) (simp_all add: finishBuild_def emit_def success_world_def)

lemma compiler_build_failure:
  assumes "build_failure env inp = Some t"
  shows "compiler_build env inp w =
     (if persistent_mode w then
        (Returned,
         w\<lparr>builds := builds w @ [\<lparr>outputs = [], errors = [t], is_open = False\<rparr>],
           trace := trace w @ [StartBuild (length (builds w)), AddError (length (builds w)) t,
                               FinishBuild (length (builds w))]\<rparr>)
      else
        (Exited 1,
         w\<lparr>builds := builds w @ [\<lparr>outputs = [], errors = [t], is_open = True\<rparr>],
           trace := trace w @ [StartBuild (length (builds w)), AddError (length (builds w)) t,
                               ConsoleError ''An error has occurred:'',
                               ConsoleError (''  '' @ thrown_toString env t),
                               ConsoleError []]\<rparr>))"
  unfolding compiler_build_def startBuild_eq Let_def prod.case metadata_path_def[symmetric]
  by (subst build_steps_fail[OF assms])
     (simp add: addError_def finishBuild_def emit_def persistent_mode_def)

lemma build_failure_compile:
  "compile env (texture_options inp) = Inl e \<Longrightarrow> build_failure env inp = Some (External e)"
  by (simp add: build_failure_def)

lemma build_failure_none:
  "compile env (texture_options inp) = Inr md \<Longrightarrow> stringify env md = Inr s \<Longrightarrow>
   writeFileSync env (metadata_path inp) (s @ [CHR 0x0A]) = None \<Longrightarrow>
   build_failure env inp = None"
  by (simp add: build_failure_def)

lemma compiler_build_cases:
  "compiler_build env inp w =
     (case build_failure env inp of
        None \<Rightarrow> (Returned, success_world env inp w)
      | Some t \<Rightarrow>
          if persistent_mode w then
            (Returned,
             w\<lparr>builds := builds w @ [\<lparr>outputs = [], errors = [t], is_open = False\<rparr>],
               trace := trace w @ [StartBuild (length (builds w)), AddError (length (builds w)) t,
                                   FinishBuild (length (builds w))]\<rparr>)
          else
            (Exited 1,
             w\<lparr>builds := builds w @ [\<lparr>outputs = [], errors = [t], is_open = True\<rparr>],
               trace := trace w @ [StartBuild (length (builds w)), AddError (length (builds w)) t,
                                   ConsoleError ''An error has occurred:'',
                                   ConsoleError (''  '' @ thrown_toString env t),
                                   ConsoleError []]\<rparr>))"
  by (cases "build_failure env inp") (simp_all add: compiler_build_success compiler_build_failure)

lemma events_since_emit [simp]:
  "events_since w (w\<lparr>builds := b, trace := trace w @ es\<rparr>) = es"
  by (simp add: events_since_def)

lemma compiler_build_persistent:
  assumes "persistent_mode w"
  shows "\<exists>w'. compiler_build env inp w = (Returned, w') \<and> persistent_mode w'"
proof (cases "build_failure env inp")
  case None
  then show ?thesis using assms
    by (simp add: compiler_build_success success_world_def persistent_mode_def)
next
  case (Some t)
  then show ?thesis using assms
    by (simp add: compiler_build_failure) (simp add: persistent_mode_def)
qed

lemma handle_events_persistent:
  "persistent_mode w \<Longrightarrow> \<exists>w'. handle_events env ds w = (Returned, w') \<and> persistent_mode w'"
proof (induction ds arbitrary: w)
  case Nil
  then show ?case by simp
next
  case (Cons d ds)
  from compiler_build_persistent [OF Cons.prems, of env "ipc_input d"]
  obtain w1 where w1: "on_build env d w = (Returned, w1)" "persistent_mode w1"
    by (auto simp: on_build_def)
  from Cons.IH [OF w1(2)] w1(1) show ?case by simp
qed

lemma main_persistent:
  "prog_persistent prog \<Longrightarrow>
   main env prog w =
     (Returned, w\<lparr>args := Some \<lparr>args_persistent = True, args_sourcePath = argv1 env,
                                  args_targetPath = argv1 env, args_platform = []\<rparr>\<rparr>)"
  by (simp add: main_def command_line_def)

lemma build_failure_write:
  "compile env (texture_options inp) = Inr md \<Longrightarrow> stringify env md = Inr s \<Longrightarrow>
   writeFileSync env (metadata_path inp) (s @ [CHR 0x0A]) = Some e \<Longrightarrow>
   build_failure env inp = Some (External e)"
  by (simp add: build_failure_def)

lemma main_missing:
  assumes "\<not> prog_persistent prog" and "\<not> isFile env (prog_input prog)"
  shows "main env prog w =
     (Exited 2,
      w\<lparr>trace := trace w @
         [ConsoleLog ''Error: No input file specified or input file not found.'',
          ConsoleLog []]\<rparr>)"
  using assms by (simp add: main_def command_line_def emit_def)

subsection \<open>The example environment\<close>

lemma example_paths:
  "changeExtension ''/work/photo.pixels'' ''texture'' = ''/work/photo.texture''"
  "changeExtension ''/work/broken.pixels'' ''texture'' = ''/work/broken.texture''"
  "changeExtension ''/readonly/photo.pixels'' ''texture'' = ''/readonly/photo.texture''"
  "changeExtension ''/out/broken'' ''texture'' = ''/out/broken.texture''"
  "changeExtension ''/out/photo'' ''texture'' = ''/out/photo.texture''"
  by (simp_all add: changeExtension_def dir_part_def file_part_def stem_def
        upto_last_def after_last_def)

lemma example_failure:
  "build_failure example_env (ipc_input broken_data) = Some (External ''cannot decode'')"
  "build_failure example_env (ipc_input photo_data) = None"
  "build_failure example_env broken_input = Some (External ''cannot decode'')"
  "build_failure example_env photo_input = None"
  "build_failure example_env readonly_input = Some (External ''EACCES'')"
  by (simp_all add: build_failure_def example_env_def texture_options_def ipc_input_def
      broken_data_def photo_data_def broken_input_def photo_input_def readonly_input_def
      metadata_path_def example_paths) (simp_all add: dir_part_def upto_last_def)

lemma example_sidecar:
  "sidecar_text example_env (ipc_input photo_data) = ''{}'' @ [CHR 0x0A]"
  "sidecar_text example_env photo_input = ''{}'' @ [CHR 0x0A]"
  by (simp_all add: sidecar_text_def example_env_def texture_options_def ipc_input_def
      photo_data_def photo_input_def)

lemma example_join: "path_join ''/work'' ''broken.pixels'' = ''/work/broken.pixels''"
  "path_join ''/work'' ''photo.pixels'' = ''/work/photo.pixels''"
  by (simp_all add: path_join_def normalize_path_def normalizeArray_def)

lemma example_default:
  "changeExtension (basename ''broken.png'') ''pixels'' = ''broken.pixels''"
  "changeExtension (basename ''photo.png'') ''pixels'' = ''photo.pixels''"
  by (simp_all add: changeExtension_def basename_def dir_part_def file_part_def stem_def
        upto_last_def after_last_def)

lemma example_main_persistent:
  "main example_env persistent_options initial = (Returned, persistent_world)"
  by (simp add: main_persistent persistent_options_def no_options_def)
     (simp add: initial_def persistent_world_def example_env_def)

lemma example_handle_events:
  "handle_events example_env [photo_data] persistent_world = (Returned, after_photo)"
  by (simp add: on_build_def compiler_build_success example_failure success_world_def
      example_sidecar metadata_path_def)
     (simp add: ipc_input_def photo_data_def example_paths persistent_world_def after_photo_def)

lemma example_photo_build:
  "compiler_build example_env photo_input initial =
     (Returned,
      \<lparr>args = None,
       builds = [\<lparr>outputs = [''/work/photo.texture'', ''/work/photo.pixels''],
                  errors = [], is_open = False\<rparr>],
       trace = [StartBuild 0, WriteFile ''/work/photo.texture'' (''{}'' @ [CHR 0x0A]),
                AddOutput 0 ''/work/photo.texture'', AddOutput 0 ''/work/photo.pixels'',
                FinishBuild 0]\<rparr>)"
  by (simp add: compiler_build_success example_failure success_world_def example_sidecar
      metadata_path_def)
     (simp add: photo_input_def example_paths initial_def)

lemma example_broken_main:
  "main example_env broken_options initial =
     compiler_build example_env broken_input (standalone_world)"
  by (simp add: main_def command_line_def broken_options_def no_options_def)
     (simp add: example_env_def example_default example_join broken_input_def
        standalone_world_def initial_def)

lemma example_broken_build:
  "compiler_build example_env broken_input standalone_world =
     (Exited 1,
      standalone_world
       \<lparr>builds := [\<lparr>outputs = [], errors = [External ''cannot decode''], is_open = True\<rparr>],
        trace := [StartBuild 0, AddError 0 (External ''cannot decode''),
                  ConsoleError ''An error has occurred:'',
                  ConsoleError ''  Error: cannot decode'',
                  ConsoleError []]\<rparr>)"
proof -
  have "\<not> persistent_mode standalone_world"
    by (simp add: persistent_mode_def standalone_world_def)
  then show ?thesis
    by (simp add: compiler_build_failure [OF example_failure(3)] thrown_toString_def)
       (simp add: standalone_world_def example_env_def)
qed

lemma example_readonly_build:
  "compiler_build example_env readonly_input persistent_world =
     (Returned,
      persistent_world
       \<lparr>builds := [\<lparr>outputs = [], errors = [External ''EACCES''], is_open = False\<rparr>],
        trace := [StartBuild 0, AddError 0 (External ''EACCES''), FinishBuild 0]\<rparr>)"
proof -
  have "persistent_mode persistent_world"
    by (simp add: persistent_mode_def persistent_world_def)
  then show ?thesis
    by (simp add: compiler_build_failure [OF example_failure(5)])
       (simp add: persistent_world_def)
qed

subsection \<open>Outcome of a build\<close>

text \<open>
  Claim C1. A build whose compile step and metadata write both succeed returns with a
  closed build state holding exactly two outputs, the metadata path first and the target
  path second, and no error.
\<close>

theorem successful_build_outputs:
  assumes "compile env (texture_options inp) = Inr md"
    and "stringify env md = Inr s"
    and "writeFileSync env (changeExtension (targetPath inp) ''texture'') (s @ [CHR 0x0A]) = None"
  shows "compiler_build env inp w =
     (Returned,
      w\<lparr>builds := builds w @
           [\<lparr>outputs = [changeExtension (targetPath inp) ''texture'', targetPath inp],
             errors = [], is_open = False\<rparr>],
        trace := trace w @
           [StartBuild (length (builds w)),
            WriteFile (changeExtension (targetPath inp) ''texture'') (s @ [CHR 0x0A]),
            AddOutput (length (builds w)) (changeExtension (targetPath inp) ''texture''),
            AddOutput (length (builds w)) (targetPath inp),
            FinishBuild (length (builds w))]\<rparr>)"
proof -
  have "build_failure env inp = None"
    using assms by (simp add: build_failure_none metadata_path_def)
  moreover have "sidecar_text env inp = s @ [CHR 0x0A]"
    using assms by (simp add: sidecar_text_def)
  ultimately show ?thesis
    by (simp add: compiler_build_success success_world_def metadata_path_def)
qed

theorem successful_build_outputs_witness:
  "compile example_env (texture_options photo_input) = Inr ''{}'' \<and>
   stringify example_env ''{}'' = Inr ''{}'' \<and>
   writeFileSync example_env (changeExtension (targetPath photo_input) ''texture'')
     (''{}'' @ [CHR 0x0A]) = None \<and>
   compiler_build example_env photo_input initial =
     (Returned,
      \<lparr>args = None,
       builds = [\<lparr>outputs = [''/work/photo.texture'', ''/work/photo.pixels''],
                  errors = [], is_open = False\<rparr>],
       trace = [StartBuild 0, WriteFile ''/work/photo.texture'' (''{}'' @ [CHR 0x0A]),
                AddOutput 0 ''/work/photo.texture'', AddOutput 0 ''/work/photo.pixels'',
                FinishBuild 0]\<rparr>)"
proof -
  have path: "changeExtension (targetPath photo_input) ''texture'' = ''/work/photo.texture''"
    by (simp add: photo_input_def changeExtension_def dir_part_def file_part_def stem_def
        upto_last_def after_last_def)
  have c: "compile example_env (texture_options photo_input) = Inr ''{}''"
    by (simp add: example_env_def texture_options_def photo_input_def)
  have s: "stringify example_env ''{}'' = Inr ''{}''"
    by (simp add: example_env_def)
  have f: "writeFileSync example_env (changeExtension (targetPath photo_input) ''texture'')
      (''{}'' @ [CHR 0x0A]) = None"
    unfolding path by (simp add: example_env_def dir_part_def upto_last_def)
  show ?thesis
    using successful_build_outputs [OF c s f, of initial] c s f
    by (simp add: path) (simp add: initial_def photo_input_def)
qed

text \<open>
  Claim C2. When the compile step fails, the value it threw is the one error recorded in the
  build state and no output is recorded. A stand-alone process then prints the error on
  the error stream and exits with status 1; a persistent one closes the state and
  returns. No file is written in either mode.
\<close>

theorem failed_compile_recorded:
  assumes "compile env (texture_options inp) = Inl e"
  shows "compiler_build env inp w =
     (if persistent_mode w then
        (Returned,
         w\<lparr>builds := builds w @ [\<lparr>outputs = [], errors = [External e], is_open = False\<rparr>],
           trace := trace w @ [StartBuild (length (builds w)),
                               AddError (length (builds w)) (External e),
                               FinishBuild (length (builds w))]\<rparr>)
      else
        (Exited 1,
         w\<lparr>builds := builds w @ [\<lparr>outputs = [], errors = [External e], is_open = True\<rparr>],
           trace := trace w @ [StartBuild (length (builds w)),
                               AddError (length (builds w)) (External e),
                               ConsoleError ''An error has occurred:'',
                               ConsoleError (''  '' @ toString env e),
                               ConsoleError []]\<rparr>))
     \<and> exit_status ERROR = 1
     \<and> (\<forall>p d. WriteFile p d \<notin> set (events_since w (snd (compiler_build env inp w))))"
  using compiler_build_failure [OF build_failure_compile [OF assms], of w]
  by (simp add: thrown_toString_def)

theorem failed_compile_recorded_witness:
  "compile example_env (texture_options broken_input) = Inl ''cannot decode'' \<and>
   compiler_build example_env broken_input standalone_world =
     (Exited 1,
      standalone_world
       \<lparr>builds := [\<lparr>outputs = [], errors = [External ''cannot decode''], is_open = True\<rparr>],
        trace := [StartBuild 0, AddError 0 (External ''cannot decode''),
                  ConsoleError ''An error has occurred:'',
                  ConsoleError ''  Error: cannot decode'',
                  ConsoleError []]\<rparr>) \<and>
   (\<forall>p d. WriteFile p d \<notin> set (events_since standalone_world
      (snd (compiler_build example_env broken_input standalone_world))))"
proof -
  have c: "compile example_env (texture_options broken_input) = Inl ''cannot decode''"
    by (simp add: example_env_def texture_options_def broken_input_def)
  have m: "\<not> persistent_mode standalone_world"
    by (simp add: persistent_mode_def standalone_world_def)
  have t: "toString example_env ''cannot decode'' = ''Error: cannot decode''"
    by (simp add: example_env_def)
  have b: "builds standalone_world = []" "trace standalone_world = []"
    by (simp_all add: standalone_world_def)
  show ?thesis
    using failed_compile_recorded [OF c, of standalone_world] c m
    by (simp add: t b events_since_def)
qed

text \<open>
  Claim C3. In a persistent process neither \<open>Main\<close> nor any sequence of 'build' events ends
  the process, and a build whose steps fail records the error, closes the build state and
  returns, with the error left in the closed state.
\<close>

theorem persistent_error_no_exit:
  assumes "prog_persistent prog"
    and "handle_events env ds (snd (main env prog w0)) = (c, w)"
    and "build_failure env (ipc_input d) = Some t"
  shows "fst (main env prog w0) = Returned \<and> c = Returned \<and>
     on_build env d w =
       (Returned,
        w\<lparr>builds := builds w @ [\<lparr>outputs = [], errors = [t], is_open = False\<rparr>],
          trace := trace w @ [StartBuild (length (builds w)), AddError (length (builds w)) t,
                              FinishBuild (length (builds w))]\<rparr>)"
proof -
  have m: "fst (main env prog w0) = Returned" "persistent_mode (snd (main env prog w0))"
    using assms(1) by (simp_all add: main_persistent persistent_mode_def)
  from handle_events_persistent [OF m(2), of env ds] assms(2)
  have w: "c = Returned" "persistent_mode w" by auto
  show ?thesis
    using m(1) w compiler_build_failure [OF assms(3), of w] by (simp add: on_build_def)
qed

theorem persistent_error_no_exit_witness:
  "prog_persistent persistent_options \<and>
   handle_events example_env [photo_data] (snd (main example_env persistent_options initial))
     = (Returned, after_photo) \<and>
   build_failure example_env (ipc_input broken_data) = Some (External ''cannot decode'') \<and>
   on_build example_env broken_data after_photo =
     (Returned,
      after_photo
       \<lparr>builds := builds after_photo @
           [\<lparr>outputs = [], errors = [External ''cannot decode''], is_open = False\<rparr>],
        trace := trace after_photo @
           [StartBuild 1, AddError 1 (External ''cannot decode''), FinishBuild 1]\<rparr>)"
proof -
  have p: "prog_persistent persistent_options"
    by (simp add: persistent_options_def)
  have h: "handle_events example_env [photo_data]
      (snd (main example_env persistent_options initial)) = (Returned, after_photo)"
    by (simp only: example_main_persistent snd_conv example_handle_events)
  have n: "length (builds after_photo) = 1"
    by (simp add: after_photo_def)
  show ?thesis
    using persistent_error_no_exit [OF p h example_failure(1)] p h example_failure(1)
    by (simp add: n)
qed

text \<open>
  Claim C4. The outputs of a build are the metadata path and then the target path unchanged
  (none when the build fails); the only file a build writes is the metadata path; and the
  metadata path has the directory and the stem of the target path and the extension
  \<open>texture\<close>.
\<close>

theorem output_paths:
  "outputs (builds (snd (compiler_build env inp w)) ! length (builds w)) =
     (case build_failure env inp of
        None \<Rightarrow> [changeExtension (targetPath inp) ''texture'', targetPath inp]
      | Some t \<Rightarrow> [])
   \<and> (\<forall>p d. WriteFile p d \<in> set (events_since w (snd (compiler_build env inp w)))
          \<longrightarrow> p = changeExtension (targetPath inp) ''texture'')
   \<and> dir_part (changeExtension (targetPath inp) ''texture'') = dir_part (targetPath inp)
   \<and> stem (file_part (changeExtension (targetPath inp) ''texture''))
        = stem (file_part (targetPath inp))
   \<and> extension (file_part (changeExtension (targetPath inp) ''texture'')) = ''texture''"
proof -
  have "outputs (builds (snd (compiler_build env inp w)) ! length (builds w)) =
     (case build_failure env inp of
        None \<Rightarrow> [changeExtension (targetPath inp) ''texture'', targetPath inp]
      | Some t \<Rightarrow> [])"
    by (simp add: compiler_build_cases success_world_def metadata_path_def split: option.splits)
  moreover have "\<forall>p d. WriteFile p d \<in> set (events_since w (snd (compiler_build env inp w)))
          \<longrightarrow> p = changeExtension (targetPath inp) ''texture''"
    by (simp add: compiler_build_cases success_world_def metadata_path_def split: option.splits)
  moreover have "stem (file_part (changeExtension (targetPath inp) ''texture''))
        = stem (file_part (targetPath inp))"
    using stem_with_extension [of "''texture''" "stem (file_part (targetPath inp))"]
    by (simp add: changeExtension_file)
  moreover have "extension (file_part (changeExtension (targetPath inp) ''texture'')) = ''texture''"
    using extension_with_extension [of "''texture''" "stem (file_part (targetPath inp))"]
    by (simp add: changeExtension_file)
  ultimately show ?thesis
    by (simp add: changeExtension_dir)
qed

theorem output_paths_witness:
  "WriteFile ''/work/photo.texture'' (''{}'' @ [CHR 0x0A])
     \<in> set (events_since initial (snd (compiler_build example_env photo_input initial)))
   \<and> changeExtension (targetPath photo_input) ''texture'' = ''/work/photo.texture''
   \<and> outputs (builds (snd (compiler_build example_env photo_input initial)) ! 0)
       = [''/work/photo.texture'', ''/work/photo.pixels'']
   \<and> dir_part ''/work/photo.texture'' = dir_part ''/work/photo.pixels''
   \<and> stem (file_part ''/work/photo.texture'') = stem (file_part ''/work/photo.pixels'')
   \<and> extension (file_part ''/work/photo.texture'') = ''texture''"
proof -
  have e: "WriteFile ''/work/photo.texture'' (''{}'' @ [CHR 0x0A])
     \<in> set (events_since initial (snd (compiler_build example_env photo_input initial)))"
    unfolding example_photo_build by (simp add: events_since_def initial_def)
  have p: "changeExtension (targetPath photo_input) ''texture'' = ''/work/photo.texture''"
    by (simp add: photo_input_def example_paths)
  have t: "targetPath photo_input = ''/work/photo.pixels''"
    by (simp add: photo_input_def)
  have b: "length (builds (initial :: string world)) = 0"
    by (simp add: initial_def)
  show ?thesis
    using output_paths [of example_env photo_input initial] e p
    by (simp add: example_failure p t b)
qed

text \<open>
  Claim C5. As stated (the build state is finished exactly once in every build) the claim
  fails: a stand-alone build that fails exits before \<open>finishBuild\<close> is reached.
\<close>

theorem finish_exactly_once_counterexample:
  "fst (main example_env broken_options initial) = Exited 1 \<and>
   StartBuild 0 \<in> set (trace (snd (main example_env broken_options initial))) \<and>
   count_list (trace (snd (main example_env broken_options initial))) (FinishBuild 0) \<noteq> 1"
  unfolding example_broken_main example_broken_build by simp

text \<open>
  Claim C5, amended. Every build opens one build state. It finishes that state exactly once when the
  build succeeds (in either mode) and when it fails in a persistent process; when it
  fails in a stand-alone process, the process exits with status 1 and the state is never
  finished.
\<close>

theorem finish_once_unless_exit:
  "count_list (events_since w (snd (compiler_build env inp w))) (StartBuild (length (builds w))) = 1
   \<and> count_list (events_since w (snd (compiler_build env inp w))) (FinishBuild (length (builds w)))
       = (if build_failure env inp \<noteq> None \<and> \<not> persistent_mode w then 0 else 1)
   \<and> fst (compiler_build env inp w)
       = (if build_failure env inp \<noteq> None \<and> \<not> persistent_mode w
          then Exited (exit_status ERROR) else Returned)
   \<and> is_open (builds (snd (compiler_build env inp w)) ! length (builds w))
       = (build_failure env inp \<noteq> None \<and> \<not> persistent_mode w)"
  by (cases "build_failure env inp")
     (simp_all add: compiler_build_cases success_world_def)

theorem finish_once_unless_exit_witness:
  "count_list (events_since initial (snd (compiler_build example_env photo_input initial)))
     (FinishBuild 0) = 1
   \<and> count_list (events_since standalone_world
        (snd (compiler_build example_env broken_input standalone_world))) (FinishBuild 0) = 0
   \<and> count_list (events_since persistent_world
        (snd (compiler_build example_env broken_input persistent_world))) (FinishBuild 0) = 1"
proof -
  have m: "\<not> persistent_mode standalone_world" "persistent_mode persistent_world"
    by (simp_all add: persistent_mode_def standalone_world_def persistent_world_def)
  have b: "length (builds (initial :: string world)) = 0"
    "length (builds standalone_world) = 0" "length (builds persistent_world) = 0"
    by (simp_all add: initial_def standalone_world_def persistent_world_def)
  show ?thesis
    using finish_once_unless_exit [of initial example_env photo_input]
      finish_once_unless_exit [of standalone_world example_env broken_input]
      finish_once_unless_exit [of persistent_world example_env broken_input]
    by (simp add: example_failure m b)
qed

text \<open>
  Claim C6. Among the events of a build, every recording of an output comes after the write
  of the metadata file. When the compile step succeeds and the write throws, the thrown
  value is the one error recorded in the build state and no output is recorded.
\<close>

theorem write_before_outputs:
  "(\<forall>pre k p post.
      events_since w (snd (compiler_build env inp w)) = pre @ AddOutput k p # post
      \<longrightarrow> WriteFile (changeExtension (targetPath inp) ''texture'') (sidecar_text env inp)
            \<in> set pre)
   \<and> (\<forall>md s e.
        compile env (texture_options inp) = Inr md \<and> stringify env md = Inr s \<and>
        writeFileSync env (changeExtension (targetPath inp) ''texture'') (s @ [CHR 0x0A]) = Some e
        \<longrightarrow> errors (builds (snd (compiler_build env inp w)) ! length (builds w)) = [External e]
            \<and> outputs (builds (snd (compiler_build env inp w)) ! length (builds w)) = []
            \<and> (\<forall>k p. AddOutput k p \<notin> set (events_since w (snd (compiler_build env inp w)))))"
proof -
  have first: "\<forall>pre k p post.
      events_since w (snd (compiler_build env inp w)) = pre @ AddOutput k p # post
      \<longrightarrow> WriteFile (changeExtension (targetPath inp) ''texture'') (sidecar_text env inp)
            \<in> set pre"
    by (cases "build_failure env inp")
       (auto simp: compiler_build_cases success_world_def metadata_path_def
          Cons_eq_append_conv)
  have second: "\<forall>md s e.
        compile env (texture_options inp) = Inr md \<and> stringify env md = Inr s \<and>
        writeFileSync env (changeExtension (targetPath inp) ''texture'') (s @ [CHR 0x0A]) = Some e
        \<longrightarrow> errors (builds (snd (compiler_build env inp w)) ! length (builds w)) = [External e]
            \<and> outputs (builds (snd (compiler_build env inp w)) ! length (builds w)) = []
            \<and> (\<forall>k p. AddOutput k p \<notin> set (events_since w (snd (compiler_build env inp w))))"
  proof (intro allI impI)
    fix md s e
    assume "compile env (texture_options inp) = Inr md \<and> stringify env md = Inr s \<and>
        writeFileSync env (changeExtension (targetPath inp) ''texture'') (s @ [CHR 0x0A]) = Some e"
    then have "build_failure env inp = Some (External e)"
      by (simp add: build_failure_write metadata_path_def)
    then show "errors (builds (snd (compiler_build env inp w)) ! length (builds w)) = [External e]
            \<and> outputs (builds (snd (compiler_build env inp w)) ! length (builds w)) = []
            \<and> (\<forall>k p. AddOutput k p \<notin> set (events_since w (snd (compiler_build env inp w))))"
      by (simp add: compiler_build_cases)
  qed
  from first second show ?thesis by (rule conjI)
qed

theorem write_before_outputs_witness:
  "events_since initial (snd (compiler_build example_env photo_input initial))
     = [StartBuild 0, WriteFile ''/work/photo.texture'' (''{}'' @ [CHR 0x0A])]
       @ AddOutput 0 ''/work/photo.texture'' # [AddOutput 0 ''/work/photo.pixels'', FinishBuild 0]
   \<and> WriteFile (changeExtension (targetPath photo_input) ''texture'')
        (sidecar_text example_env photo_input)
       \<in> set [StartBuild 0, WriteFile ''/work/photo.texture'' (''{}'' @ [CHR 0x0A])]
   \<and> compile example_env (texture_options readonly_input) = Inr ''{}''
   \<and> stringify example_env ''{}'' = Inr ''{}''
   \<and> writeFileSync example_env (changeExtension (targetPath readonly_input) ''texture'')
        (''{}'' @ [CHR 0x0A]) = Some ''EACCES''
   \<and> errors (builds (snd (compiler_build example_env readonly_input persistent_world)) ! 0)
        = [External ''EACCES'']
   \<and> outputs (builds (snd (compiler_build example_env readonly_input persistent_world)) ! 0) = []"
proof -
  have ev: "events_since initial (snd (compiler_build example_env photo_input initial))
     = [StartBuild 0, WriteFile ''/work/photo.texture'' (''{}'' @ [CHR 0x0A])]
       @ AddOutput 0 ''/work/photo.texture'' # [AddOutput 0 ''/work/photo.pixels'', FinishBuild 0]"
    unfolding example_photo_build by (simp add: events_since_def initial_def)
  have c: "compile example_env (texture_options readonly_input) = Inr ''{}''"
    by (simp add: example_env_def texture_options_def readonly_input_def)
  have s: "stringify example_env ''{}'' = Inr ''{}''"
    by (simp add: example_env_def)
  have f: "writeFileSync example_env (changeExtension (targetPath readonly_input) ''texture'')
        (''{}'' @ [CHR 0x0A]) = Some ''EACCES''"
    by (simp add: readonly_input_def example_paths)
       (simp add: example_env_def dir_part_def upto_last_def)
  have b: "length (builds persistent_world) = 0"
    by (simp add: persistent_world_def)
  note first = write_before_outputs [of initial example_env photo_input,
      THEN conjunct1, rule_format, OF ev]
  note second = write_before_outputs [of persistent_world example_env readonly_input,
      THEN conjunct2, rule_format, OF conjI [OF c conjI [OF s f]]]
  have 2: "errors (builds (snd (compiler_build example_env readonly_input persistent_world)) ! 0)
        = [External ''EACCES'']
   \<and> outputs (builds (snd (compiler_build example_env readonly_input persistent_world)) ! 0) = []"
    using second unfolding b by simp
  from ev first c s f 2 show ?thesis by simp
qed

subsection \<open>The command line\<close>

text \<open>
  Claim C7. A stand-alone run whose source path is not an existing file prints the message
  on the standard output and exits with status 2, the status of \<open>FILE_NOT_FOUND\<close> alone,
  without opening a build state.
\<close>

theorem missing_input_exit:
  assumes "\<not> prog_persistent prog" and "\<not> isFile env (prog_input prog)"
  shows "main env prog w =
     (Exited 2,
      w\<lparr>trace := trace w @
         [ConsoleLog ''Error: No input file specified or input file not found.'',
          ConsoleLog []]\<rparr>)
   \<and> exit_status FILE_NOT_FOUND = 2
   \<and> (\<forall>c. exit_status c = 2 \<longrightarrow> c = FILE_NOT_FOUND)
   \<and> builds (snd (main env prog w)) = builds w
   \<and> (\<forall>k. StartBuild k \<notin> set (events_since w (snd (main env prog w))))"
proof -
  have "\<forall>c. exit_status c = 2 \<longrightarrow> c = FILE_NOT_FOUND"
  proof (intro allI impI)
    fix c assume "exit_status c = 2" then show "c = FILE_NOT_FOUND" by (cases c) simp_all
  qed
  then show ?thesis
    by (simp add: main_missing [OF assms] events_since_def)
qed

theorem missing_input_exit_witness:
  "\<not> prog_persistent missing_options \<and> \<not> isFile example_env (prog_input missing_options) \<and>
   main example_env missing_options initial =
     (Exited 2,
      \<lparr>args = None, builds = [],
       trace = [ConsoleLog ''Error: No input file specified or input file not found.'',
                ConsoleLog []]\<rparr>)"
proof -
  have p: "\<not> prog_persistent missing_options"
    by (simp add: missing_options_def no_options_def)
  have f: "\<not> isFile example_env (prog_input missing_options)"
    by (simp add: missing_options_def example_env_def)
  show ?thesis
    using missing_input_exit [OF p f, of initial] p f
    by (simp add: initial_def)
qed

text \<open>
  Claim C9. A stand-alone run on an existing source without an output path builds to the
  base name of the source with the extension \<open>pixels\<close>, joined to the working
  directory: below a directory that is an absolute path of plain segments (or the root)
  the target is that directory, a separator and the file name.
\<close>

theorem default_output_path:
  assumes "\<not> prog_persistent prog" and "isFile env (prog_input prog)"
    and "prog_output prog = []"
  shows "command_line env prog w =
     (Inr \<lparr>args_persistent = False, args_sourcePath = prog_input prog,
           args_targetPath =
             path_join (cwd env) (changeExtension (basename (prog_input prog)) ''pixels''),
           args_platform = prog_target prog\<rparr>, w)
   \<and> main env prog w =
       compiler_build env
         \<lparr>sourcePath = prog_input prog,
          targetPath =
            path_join (cwd env) (changeExtension (basename (prog_input prog)) ''pixels''),
          platform = prog_target prog, isIPC = False\<rparr>
         (w\<lparr>args := Some
            \<lparr>args_persistent = False, args_sourcePath = prog_input prog,
             args_targetPath =
               path_join (cwd env) (changeExtension (basename (prog_input prog)) ''pixels''),
             args_platform = prog_target prog\<rparr>\<rparr>)
   \<and> changeExtension (basename (prog_input prog)) ''pixels''
       = stem (basename (prog_input prog)) @ ''.pixels''
   \<and> (\<forall>segs. segs \<noteq> [] \<and> list_all plain_segment segs \<and> cwd env = absolute_path segs
         \<longrightarrow> path_join (cwd env) (changeExtension (basename (prog_input prog)) ''pixels'')
             = cwd env @ ''/'' @ stem (basename (prog_input prog)) @ ''.pixels'')
   \<and> (cwd env = ''/''
         \<longrightarrow> path_join (cwd env) (changeExtension (basename (prog_input prog)) ''pixels'')
             = ''/'' @ stem (basename (prog_input prog)) @ ''.pixels'')"
proof -
  have c: "command_line env prog w =
     (Inr \<lparr>args_persistent = False, args_sourcePath = prog_input prog,
           args_targetPath =
             path_join (cwd env) (changeExtension (basename (prog_input prog)) ''pixels''),
           args_platform = prog_target prog\<rparr>, w)"
    using assms by (simp add: command_line_def)
  have n: "changeExtension (basename (prog_input prog)) ''pixels''
       = stem (basename (prog_input prog)) @ ''.pixels''"
    by (simp add: changeExtension_basename)
  have j: "\<forall>segs. segs \<noteq> [] \<and> list_all plain_segment segs \<and> cwd env = absolute_path segs
         \<longrightarrow> path_join (cwd env) (changeExtension (basename (prog_input prog)) ''pixels'')
             = cwd env @ ''/'' @ stem (basename (prog_input prog)) @ ''.pixels''"
    using path_join_absolute [OF _ _ plain_default_name] by (simp add: n)
  have r: "cwd env = ''/''
         \<longrightarrow> path_join (cwd env) (changeExtension (basename (prog_input prog)) ''pixels'')
             = ''/'' @ stem (basename (prog_input prog)) @ ''.pixels''"
    using path_join_root [OF plain_default_name] by (simp add: n)
  show ?thesis
    apply (intro conjI)
        apply (rule c)
       apply (simp add: main_def c)
      apply (rule n)
     apply (rule j)
    apply (rule r)
    done
qed

theorem default_output_path_witness:
  "\<not> prog_persistent photo_options \<and> isFile example_env (prog_input photo_options) \<and>
   prog_output photo_options = [] \<and>
   cwd example_env = ''/work'' \<and> cwd example_env = absolute_path [''work''] \<and>
   list_all plain_segment [''work''] \<and>
   command_line example_env photo_options initial =
     (Inr \<lparr>args_persistent = False, args_sourcePath = ''photo.png'',
           args_targetPath = ''/work/photo.pixels'', args_platform = []\<rparr>, initial) \<and>
   changeExtension ''/work/photo.pixels'' ''texture'' = ''/work/photo.texture''"
proof -
  have p: "\<not> prog_persistent photo_options" and o: "prog_output photo_options = []"
    and i: "prog_input photo_options = ''photo.png''" and t: "prog_target photo_options = []"
    by (simp_all add: photo_options_def no_options_def)
  have f: "isFile example_env (prog_input photo_options)"
    by (simp add: i example_env_def)
  have w: "cwd example_env = ''/work''" "cwd example_env = absolute_path [''work'']"
    "list_all plain_segment [''work'']"
    by (simp_all add: example_env_def absolute_path_def plain_segment_def)
  have s: "stem (basename ''photo.png'') = ''photo''"
    by (simp add: stem_def basename_def upto_last_def after_last_def)
  note inst = default_output_path [OF p f o, of initial]
  from inst w(2,3) have "path_join (cwd example_env)
        (changeExtension (basename (prog_input photo_options)) ''pixels'')
      = cwd example_env @ ''/'' @ stem (basename (prog_input photo_options)) @ ''.pixels''"
    by blast
  then have "path_join (cwd example_env)
        (changeExtension (basename (prog_input photo_options)) ''pixels'') = ''/work/photo.pixels''"
    by (simp add: i s w(1))
  with inst p f o w show ?thesis
    by (simp add: i t example_paths)
qed

text \<open>
  Claim C10. A stand-alone run without a source path (the empty default of the option) does
  what a run on any other missing file does: it prints the same message and exits with
  status 2; the exit statuses are 0, 1 and 2 only.
\<close>

theorem omitted_input_exit:
  assumes "\<not> prog_persistent prog" and "prog_input prog = []" and "\<not> isFile env []"
  shows "main env prog w =
     (Exited (exit_status FILE_NOT_FOUND),
      emit [ConsoleLog ''Error: No input file specified or input file not found.'',
            ConsoleLog []] w)
   \<and> exit_status FILE_NOT_FOUND = 2
   \<and> (\<forall>missing. \<not> isFile env missing
         \<longrightarrow> main env (prog\<lparr>prog_input := missing\<rparr>) w = main env prog w)
   \<and> (\<forall>c. exit_status c \<in> {0, 1, 2})"
proof -
  have e: "\<forall>c. exit_status c \<in> {0, 1, 2}"
  proof
    fix c show "exit_status c \<in> {0, 1, 2}" by (cases c) simp_all
  qed
  have n: "\<not> isFile env (prog_input prog)"
    using assms by simp
  have "\<forall>missing. \<not> isFile env missing
         \<longrightarrow> main env (prog\<lparr>prog_input := missing\<rparr>) w = main env prog w"
    using assms(1) n by (simp add: main_missing)
  with e show ?thesis
    by (simp add: main_missing [OF assms(1) n] emit_def)
qed

theorem omitted_input_exit_witness:
  "\<not> prog_persistent no_options \<and> prog_input no_options = [] \<and> \<not> isFile example_env [] \<and>
   \<not> isFile example_env ''missing.png'' \<and>
   main example_env no_options initial =
     (Exited 2,
      \<lparr>args = None, builds = [],
       trace = [ConsoleLog ''Error: No input file specified or input file not found.'',
                ConsoleLog []]\<rparr>) \<and>
   main example_env (no_options\<lparr>prog_input := ''missing.png''\<rparr>) initial
     = main example_env no_options initial"
proof -
  have p: "\<not> prog_persistent no_options" and i: "prog_input no_options = []"
    by (simp_all add: no_options_def)
  have f: "\<not> isFile example_env []" and g: "\<not> isFile example_env ''missing.png''"
    by (simp_all add: example_env_def)
  note t = omitted_input_exit [OF p i f, of initial]
  have "main example_env (no_options\<lparr>prog_input := ''missing.png''\<rparr>) initial
     = main example_env no_options initial"
    using t g by blast
  moreover have "main example_env no_options initial =
     (Exited 2,
      \<lparr>args = None, builds = [],
       trace = [ConsoleLog ''Error: No input file specified or input file not found.'',
                ConsoleLog []]\<rparr>)"
    using t by (simp add: emit_def initial_def)
  ultimately show ?thesis using p i f g by simp
qed

subsection \<open>Uncaught exceptions\<close>

text \<open>
  Claim C8. The listener that logs an unhandled exception and exits with status 1 is
  registered under the event name \<open>unhandledException\<close>. The runtime announces an
  uncaught exception under the name \<open>uncaughtException\<close>, for which the script has no
  listener: the listener runs only for an event of its own name.
\<close>

theorem unhandled_exception_listener_unreachable:
  "uncaught_exception env error w = None \<and>
   process_emit env ''unhandledException'' error w =
     Some (Exited 1,
           w\<lparr>trace := trace w @
              [ConsoleError ''An unhandled exception has occurred:'',
               ConsoleError (''  Error: '' @ thrown_toString env error),
               ConsoleError []]\<rparr>)"
  by (simp add: uncaught_exception_def process_emit_def process_listeners_def emit_def)

end
